theory Spec2Isabelle
  imports Complex_Main
begin

section \<open>The Item resource of main.go\<close>

text \<open>
  The service of \<^verbatim>\<open>main.go\<close> maps five routes to five SQL statements on one table.
  Each handler is embedded as a function from the request's inputs and the store to a
  response and the store afterwards. What the handlers call but the repository does not
  contain (\<^verbatim>\<open>encoding/json\<close>, \<^verbatim>\<open>strconv.Atoi\<close>, \<^verbatim>\<open>net/http\<close>, the database)
  is modelled by its documented behaviour, as far as the handlers depend on it.
  Tracing spans and the CORS wrapper do not touch the response of a handler or the
  store and are left out.
\<close>

subsection \<open>Data\<close>

text \<open>
  \<^verbatim>\<open>type Item struct\<close> (main.go 29-34). Go's \<^verbatim>\<open>int\<close> is taken as a 64-bit integer whose
  range is checked where a value enters (\<open>Atoi\<close>, the decoder); \<^verbatim>\<open>float64\<close> is idealised
  as a rational number: no handler computes with the price, it is only passed on, and
  rounding of a literal to the nearest float is not modelled.
\<close>

record Item =
  ID :: int
  Name :: string
  Description :: string
  Price :: rat

definition zero_Item :: Item where
  \<comment> \<open>\<^verbatim>\<open>var item Item\<close>: Go's zero value\<close>
  "zero_Item = \<lparr>ID = 0, Name = [], Description = [], Price = 0\<rparr>"

text \<open>
  JSON values. A number keeps the one distinction Go's decoder makes on its spelling:
  \<open>Int_lit\<close> is a literal that is an optional minus sign and digits, \<open>Frac_lit\<close> is any
  other number literal (one with a fraction or an exponent), given by its value.
\<close>

datatype number = Int_lit int | Frac_lit rat

datatype json =
    JNull
  | JBool bool
  | JNumber number
  | JString string
  | JArray "json list"
  | JObject "(string \<times> json) list"

text \<open>
  What \<^verbatim>\<open>json.NewDecoder(r.Body)\<close> finds in a request body: no complete JSON value
  (a syntax error, or end of input; the decoder's message is carried along), or a first
  JSON value. The decoder reads one value and does not look at what follows it.
\<close>

datatype request_body = Syntax_error string | Value json

text \<open>
  The errors a handler can meet. \<open>ErrNoRows\<close> is \<^verbatim>\<open>sql.ErrNoRows\<close>; \<open>DriverError\<close> is
  any failure of the connection or the statement, with the driver's message;
  \<open>UniqueViolation\<close> is the primary key rejecting a duplicate id;
  \<open>UnmarshalTypeError\<close> names the Go field (or the struct) a JSON value did not fit.
\<close>

datatype error =
    SyntaxError string
  | UnmarshalTypeError string
  | ErrNoRows
  | DriverError string
  | UniqueViolation

subsection \<open>strconv.Atoi\<close>

definition is_digit :: "char \<Rightarrow> bool" where
  "is_digit c = (let n = (of_char c :: nat) in 48 \<le> n \<and> n \<le> 57)"

definition digit_val :: "char \<Rightarrow> nat" where
  "digit_val c = (of_char c :: nat) - 48"

fun parse_digits :: "string \<Rightarrow> nat \<Rightarrow> nat option" where
  \<comment> \<open>the digit loop: \<^verbatim>\<open>n = n*10 + int(ch)\<close>, a syntax error at the first non-digit\<close>
  "parse_digits [] n = Some n"
| "parse_digits (c # cs) n =
     (if is_digit c then parse_digits cs (n * 10 + digit_val c) else None)"

definition Atoi :: "string \<Rightarrow> int option" where
  \<comment> \<open>\<^verbatim>\<open>strconv.Atoi\<close> on a 64-bit platform; \<open>None\<close> is a non-nil error (syntax or range)\<close>
  "Atoi s =
     (case s of
        [] \<Rightarrow> None
      | c # cs \<Rightarrow>
          (let neg = (c = CHR ''-'');
               ds = (if c = CHR ''-'' \<or> c = CHR ''+'' then cs else s)
           in if ds = [] then None
              else (case parse_digits ds 0 of
                      None \<Rightarrow> None
                    | Some n \<Rightarrow>
                        if neg then (if n \<le> 2 ^ 63 then Some (- int n) else None)
                        else (if n < 2 ^ 63 then Some (int n) else None))))"

subsection \<open>encoding/json on Item\<close>

definition to_lower :: "char \<Rightarrow> char" where
  "to_lower c = (let n = (of_char c :: nat) in if 65 \<le> n \<and> n \<le> 90 then char_of (n + 32) else c)"

definition int64_range :: "int \<Rightarrow> bool" where
  "int64_range n = (- (2 ^ 63) \<le> n \<and> n < 2 ^ 63)"

definition float64_range :: "rat \<Rightarrow> bool" where
  \<comment> \<open>a value that does not round to an infinity: below \<open>2^1024 - 2^970\<close> in magnitude\<close>
  "float64_range q = (\<bar>q\<bar> < 2 ^ 1024 - 2 ^ 970)"

definition set_field :: "string \<Rightarrow> json \<Rightarrow> Item \<Rightarrow> error + Item" where
  \<comment> \<open>one key of a JSON object stored into the struct: the field is found by its
      \<^verbatim>\<open>json:"..."\<close> tag, letter case ignored (ASCII folding here); an unknown key is
      skipped; \<^verbatim>\<open>null\<close> leaves the field as it is; a value of the wrong JSON type or a
      number out of the field's range is an \<^verbatim>\<open>UnmarshalTypeError\<close>\<close>
  "set_field k v item =
     (let f = map to_lower k in
      if f = ''id'' then
        (case v of
           JNull \<Rightarrow> Inr item
         | JNumber (Int_lit n) \<Rightarrow>
             if int64_range n then Inr (item\<lparr>ID := n\<rparr>) else Inl (UnmarshalTypeError ''Item.id'')
         | _ \<Rightarrow> Inl (UnmarshalTypeError ''Item.id''))
      else if f = ''name'' then
        (case v of
           JNull \<Rightarrow> Inr item
         | JString x \<Rightarrow> Inr (item\<lparr>Name := x\<rparr>)
         | _ \<Rightarrow> Inl (UnmarshalTypeError ''Item.name''))
      else if f = ''description'' then
        (case v of
           JNull \<Rightarrow> Inr item
         | JString x \<Rightarrow> Inr (item\<lparr>Description := x\<rparr>)
         | _ \<Rightarrow> Inl (UnmarshalTypeError ''Item.description''))
      else if f = ''price'' then
        (case v of
           JNull \<Rightarrow> Inr item
         | JNumber (Int_lit n) \<Rightarrow>
             if float64_range (of_int n) then Inr (item\<lparr>Price := of_int n\<rparr>)
             else Inl (UnmarshalTypeError ''Item.price'')
         | JNumber (Frac_lit q) \<Rightarrow>
             if float64_range q then Inr (item\<lparr>Price := q\<rparr>)
             else Inl (UnmarshalTypeError ''Item.price'')
         | _ \<Rightarrow> Inl (UnmarshalTypeError ''Item.price''))
      else Inr item)"

fun set_fields :: "(string \<times> json) list \<Rightarrow> Item \<Rightarrow> error + Item" where
  \<comment> \<open>the keys of an object in their order, a later duplicate overwriting an earlier one;
      the decoder reports the first type error\<close>
  "set_fields [] item = Inr item"
| "set_fields ((k, v) # kvs) item =
     (case set_field k v item of
        Inl e \<Rightarrow> Inl e
      | Inr item' \<Rightarrow> set_fields kvs item')"

definition Unmarshal :: "json \<Rightarrow> Item \<Rightarrow> error + Item" where
  "Unmarshal v item =
     (case v of
        JNull \<Rightarrow> Inr item
      | JObject kvs \<Rightarrow> set_fields kvs item
      | _ \<Rightarrow> Inl (UnmarshalTypeError ''Item''))"

definition Decode :: "request_body \<Rightarrow> Item \<Rightarrow> error + Item" where
  \<comment> \<open>\<^verbatim>\<open>json.NewDecoder(r.Body).Decode(&item)\<close>\<close>
  "Decode b item =
     (case b of
        Syntax_error m \<Rightarrow> Inl (SyntaxError m)
      | Value v \<Rightarrow> Unmarshal v item)"

definition encode_float :: "rat \<Rightarrow> number" where
  \<comment> \<open>a float64 is written without fraction or exponent when it is a whole number
      below \<open>10^21\<close> in magnitude\<close>
  "encode_float q =
     (if of_int \<lfloor>q\<rfloor> = q \<and> \<bar>q\<bar> < 10 ^ 21 then Int_lit \<lfloor>q\<rfloor> else Frac_lit q)"

definition Item_json :: "Item \<Rightarrow> json" where
  \<comment> \<open>the struct encoded with its \<^verbatim>\<open>json:"..."\<close> tags, fields in declaration order\<close>
  "Item_json item =
     JObject [(''id'', JNumber (Int_lit (ID item))),
              (''name'', JString (Name item)),
              (''description'', JString (Description item)),
              (''price'', JNumber (encode_float (Price item)))]"

text \<open>
  A Go slice of items: \<open>None\<close> is the nil slice, which encodes as \<^verbatim>\<open>null\<close>; a non-nil
  slice, also an empty one, encodes as an array.
\<close>

type_synonym slice = "Item list option"

definition append_slice :: "slice \<Rightarrow> Item \<Rightarrow> slice" where
  "append_slice sl x = (case sl of None \<Rightarrow> Some [x] | Some xs \<Rightarrow> Some (xs @ [x]))"

definition slice_json :: "slice \<Rightarrow> json" where
  "slice_json sl = (case sl of None \<Rightarrow> JNull | Some xs \<Rightarrow> JArray (map Item_json xs))"

subsection \<open>net/http: the response writer\<close>

text \<open>
  A message written by \<^verbatim>\<open>http.Error\<close> is a text of the program or the text of an error
  value (\<^verbatim>\<open>err.Error()\<close>, whose wording belongs to the library that made the error).
  A body is empty, one message line (the message and a newline), or one JSON value.
\<close>

datatype message = Msg string | Err error

datatype payload = No_body | Line message | Json json

record response =
  header :: "(string \<times> string) list"
  status :: "nat option"
  body :: payload

definition new_response :: response where
  \<comment> \<open>the writer a handler is given: nothing set, nothing written\<close>
  "new_response = \<lparr>header = [], status = None, body = No_body\<rparr>"

definition Header_Del :: "string \<Rightarrow> response \<Rightarrow> response" where
  "Header_Del k w = w\<lparr>header := filter (\<lambda>p. fst p \<noteq> k) (header w)\<rparr>"

definition Header_Set :: "string \<Rightarrow> string \<Rightarrow> response \<Rightarrow> response" where
  "Header_Set k v w = w\<lparr>header := (k, v) # filter (\<lambda>p. fst p \<noteq> k) (header w)\<rparr>"

definition Header_Get :: "string \<Rightarrow> response \<Rightarrow> string option" where
  "Header_Get k w = map_of (header w) k"

definition WriteHeader :: "nat \<Rightarrow> response \<Rightarrow> response" where
  \<comment> \<open>the first call fixes the status code, a later one is ignored\<close>
  "WriteHeader code w = (case status w of None \<Rightarrow> w\<lparr>status := Some code\<rparr> | Some _ \<Rightarrow> w)"

definition Write :: "payload \<Rightarrow> response \<Rightarrow> response" where
  \<comment> \<open>a write before any \<open>WriteHeader\<close> sends status 200 first\<close>
  "Write p w = (WriteHeader 200 w)\<lparr>body := p\<rparr>"

definition Encode :: "json \<Rightarrow> response \<Rightarrow> response" where
  \<comment> \<open>\<^verbatim>\<open>json.NewEncoder(w).Encode(v)\<close>\<close>
  "Encode v w = Write (Json v) w"

definition http_Error :: "message \<Rightarrow> nat \<Rightarrow> response \<Rightarrow> response" where
  \<comment> \<open>\<^verbatim>\<open>http.Error(w, msg, code)\<close>\<close>
  "http_Error msg code w =
     Write (Line msg)
       (WriteHeader code
         (Header_Set ''X-Content-Type-Options'' ''nosniff''
           (Header_Set ''Content-Type'' ''text/plain; charset=utf-8''
             (Header_Del ''Content-Length'' w))))"

definition StatusBadRequest :: nat where "StatusBadRequest = 400"
definition StatusNotFound :: nat where "StatusNotFound = 404"
definition StatusInternalServerError :: nat where "StatusInternalServerError = 500"
definition StatusNoContent :: nat where "StatusNoContent = 204"

subsection \<open>The store\<close>

text \<open>
  Modelled from the spec: the items table and its sequence, which are not declared
  in main.go. The spec gives the columns (id: auto-incrementing primary key, name: text,
  description: text, price: numeric); a row of the table is an Item. \<open>rows\<close> is the
  table in the order a full select returns it, \<open>next_id\<close> is the value the sequence
  hands out next. The ids of the table and the sequence are not bounded here.
\<close>

record store =
  rows :: "Item list"
  next_id :: int

text \<open>
  A statement either fails as a whole (the connection is down, the server rejects it:
  \<open>Some\<close> the driver's message) and then changes nothing, or it is executed.
\<close>

type_synonym fault = "string option"

definition ids :: "store \<Rightarrow> int list" where
  "ids s = map ID (rows s)"

definition insert_returning_id ::
  "fault \<Rightarrow> string \<Rightarrow> string \<Rightarrow> rat \<Rightarrow> store \<Rightarrow> (error + int) \<times> store" where
  \<comment> \<open>\<^verbatim>\<open>INSERT INTO items (name, description, price) VALUES ($1, $2, $3) RETURNING id\<close>:
      the sequence advances also when the primary key rejects the row\<close>
  "insert_returning_id f n d p s =
     (case f of
        Some m \<Rightarrow> (Inl (DriverError m), s)
      | None \<Rightarrow>
          (let i = next_id s; s1 = s\<lparr>next_id := i + 1\<rparr>
           in if i \<in> set (ids s) then (Inl UniqueViolation, s1)
              else (Inr i, s1\<lparr>rows := rows s @ [\<lparr>ID = i, Name = n, Description = d, Price = p\<rparr>]\<rparr>)))"

definition select_all :: "fault \<Rightarrow> store \<Rightarrow> error + Item list" where
  \<comment> \<open>\<^verbatim>\<open>SELECT id, name, description, price FROM items\<close>\<close>
  "select_all f s = (case f of Some m \<Rightarrow> Inl (DriverError m) | None \<Rightarrow> Inr (rows s))"

definition select_by_id :: "fault \<Rightarrow> int \<Rightarrow> store \<Rightarrow> error + Item" where
  \<comment> \<open>\<^verbatim>\<open>SELECT id, name, description, price FROM items WHERE id = $1\<close> read by
      \<^verbatim>\<open>QueryRow(...).Scan\<close>: the first row, \<^verbatim>\<open>sql.ErrNoRows\<close> when there is none\<close>
  "select_by_id f i s =
     (case f of
        Some m \<Rightarrow> Inl (DriverError m)
      | None \<Rightarrow>
          (case find (\<lambda>r. ID r = i) (rows s) of
             None \<Rightarrow> Inl ErrNoRows
           | Some r \<Rightarrow> Inr r))"

definition update_by_id ::
  "fault \<Rightarrow> string \<Rightarrow> string \<Rightarrow> rat \<Rightarrow> int \<Rightarrow> store \<Rightarrow> error option \<times> store" where
  \<comment> \<open>\<^verbatim>\<open>UPDATE items SET name = $1, description = $2, price = $3 WHERE id = $4\<close>\<close>
  "update_by_id f n d p i s =
     (case f of
        Some m \<Rightarrow> (Some (DriverError m), s)
      | None \<Rightarrow>
          (None, s\<lparr>rows := map (\<lambda>r. if ID r = i
                                     then r\<lparr>Name := n, Description := d, Price := p\<rparr>
                                     else r) (rows s)\<rparr>))"

definition delete_by_id :: "fault \<Rightarrow> int \<Rightarrow> store \<Rightarrow> error option \<times> store" where
  \<comment> \<open>\<^verbatim>\<open>DELETE FROM items WHERE id = $1\<close>\<close>
  "delete_by_id f i s =
     (case f of
        Some m \<Rightarrow> (Some (DriverError m), s)
      | None \<Rightarrow> (None, s\<lparr>rows := filter (\<lambda>r. ID r \<noteq> i) (rows s)\<rparr>))"

definition Scan :: "Item \<Rightarrow> error + Item" where
  \<comment> \<open>\<^verbatim>\<open>rows.Scan(&item.ID, &item.Name, &item.Description, &item.Price)\<close>: a row of the
      table has the four columns with the types of the struct, so the scan succeeds\<close>
  "Scan r = Inr r"

subsection \<open>The handlers\<close>

definition createItem :: "fault \<Rightarrow> request_body \<Rightarrow> store \<Rightarrow> response \<times> store" where
  \<comment> \<open>main.go 99-120\<close>
  "createItem f b s =
     (case Decode b zero_Item of
        Inl err \<Rightarrow> (http_Error (Err err) StatusBadRequest new_response, s)
      | Inr item \<Rightarrow>
          (case insert_returning_id f (Name item) (Description item) (Price item) s of
             (Inl err, s') \<Rightarrow> (http_Error (Err err) StatusInternalServerError new_response, s')
           | (Inr i, s') \<Rightarrow>
               (Encode (Item_json (item\<lparr>ID := i\<rparr>))
                  (Header_Set ''Content-Type'' ''application/json'' new_response), s')))"

fun scan_rows :: "Item list \<Rightarrow> slice \<Rightarrow> error + slice" where
  \<comment> \<open>the loop \<^verbatim>\<open>for rows.Next() { ... rows.Scan ... items = append(items, item) }\<close>\<close>
  "scan_rows [] items = Inr items"
| "scan_rows (r # rs) items =
     (case Scan r of
        Inl err \<Rightarrow> Inl err
      | Inr item \<Rightarrow> scan_rows rs (append_slice items item))"

definition getItems :: "fault \<Rightarrow> store \<Rightarrow> response \<times> store" where
  \<comment> \<open>main.go 122-147; \<^verbatim>\<open>items := []Item{}\<close> is the empty slice, not the nil slice\<close>
  "getItems f s =
     (case select_all f s of
        Inl err \<Rightarrow> (http_Error (Err err) StatusInternalServerError new_response, s)
      | Inr rs \<Rightarrow>
          (case scan_rows rs (Some []) of
             Inl err \<Rightarrow> (http_Error (Err err) StatusInternalServerError new_response, s)
           | Inr items \<Rightarrow>
               (Encode (slice_json items)
                  (Header_Set ''Content-Type'' ''application/json'' new_response), s)))"

definition getItem :: "fault \<Rightarrow> string \<Rightarrow> store \<Rightarrow> response \<times> store" where
  \<comment> \<open>main.go 149-175; the string is \<^verbatim>\<open>params["id"]\<close>\<close>
  "getItem f seg s =
     (case Atoi seg of
        None \<Rightarrow> (http_Error (Msg ''Invalid item ID'') StatusBadRequest new_response, s)
      | Some i \<Rightarrow>
          (case select_by_id f i s of
             Inl err \<Rightarrow>
               if err = ErrNoRows
               then (http_Error (Msg ''Item not found'') StatusNotFound new_response, s)
               else (http_Error (Err err) StatusInternalServerError new_response, s)
           | Inr item \<Rightarrow>
               (Encode (Item_json item)
                  (Header_Set ''Content-Type'' ''application/json'' new_response), s)))"

definition updateItem :: "fault \<Rightarrow> string \<Rightarrow> request_body \<Rightarrow> store \<Rightarrow> response \<times> store" where
  \<comment> \<open>main.go 177-205\<close>
  "updateItem f seg b s =
     (case Atoi seg of
        None \<Rightarrow> (http_Error (Msg ''Invalid item ID'') StatusBadRequest new_response, s)
      | Some i \<Rightarrow>
          (case Decode b zero_Item of
             Inl err \<Rightarrow> (http_Error (Err err) StatusBadRequest new_response, s)
           | Inr item \<Rightarrow>
               (case update_by_id f (Name item) (Description item) (Price item) i s of
                  (Some err, s') \<Rightarrow>
                    (http_Error (Err err) StatusInternalServerError new_response, s')
                | (None, s') \<Rightarrow>
                    (WriteHeader StatusNoContent
                       (Header_Set ''Content-Type'' ''application/json'' new_response), s'))))"

definition deleteItem :: "fault \<Rightarrow> string \<Rightarrow> store \<Rightarrow> response \<times> store" where
  \<comment> \<open>main.go 207-227\<close>
  "deleteItem f seg s =
     (case Atoi seg of
        None \<Rightarrow> (http_Error (Msg ''Invalid item ID'') StatusBadRequest new_response, s)
      | Some i \<Rightarrow>
          (case delete_by_id f i s of
             (Some err, s') \<Rightarrow>
               (http_Error (Err err) StatusInternalServerError new_response, s')
           | (None, s') \<Rightarrow> (WriteHeader StatusNoContent new_response, s')))"

subsection \<open>The routes\<close>

text \<open>
  The five routes of \<^verbatim>\<open>main\<close> (main.go 69-73). A request that matches a route is its
  method and path with the \<^verbatim>\<open>{id}\<close> segment as text, and its body where the handler
  reads one.
\<close>

datatype request =
    POST_items request_body
  | GET_items
  | GET_item string
  | PUT_item string request_body
  | DELETE_item string

fun serve :: "fault \<Rightarrow> request \<Rightarrow> store \<Rightarrow> response \<times> store" where
  "serve f (POST_items b) s = createItem f b s"
| "serve f GET_items s = getItems f s"
| "serve f (GET_item seg) s = getItem f seg s"
| "serve f (PUT_item seg b) s = updateItem f seg b s"
| "serve f (DELETE_item seg) s = deleteItem f seg s"

fun serve_all :: "(fault \<times> request) list \<Rightarrow> store \<Rightarrow> response list \<times> store" where
  \<comment> \<open>requests served one after the other, each statement with its own fault\<close>
  "serve_all [] s = ([], s)"
| "serve_all ((f, q) # qs) s =
     (case serve f q s of
        (r, s') \<Rightarrow> (case serve_all qs s' of (rs, s'') \<Rightarrow> (r # rs, s'')))"

subsection \<open>Notions the properties are stated with\<close>

definition store_ok :: "store \<Rightarrow> bool" where
  \<comment> \<open>the primary key holds, the sequence is ahead of every id in the table and has
      only handed out positive values (it starts at 1)\<close>
  "store_ok s =
     (distinct (ids s) \<and> list_all (\<lambda>i. i < next_id s) (ids s) \<and> 0 < next_id s)"

fun created_id :: "request \<Rightarrow> response \<Rightarrow> int option" where
  \<comment> \<open>the id a client reads in the answer to a create: the \<^verbatim>\<open>id\<close> member of the Item of a
      200 response to \<^verbatim>\<open>POST /items\<close>\<close>
  "created_id (POST_items b) r =
     (if status r = Some 200
      then (case body r of
              Json (JObject ((k, JNumber (Int_lit i)) # kvs)) \<Rightarrow> Some i
            | _ \<Rightarrow> None)
      else None)"
| "created_id _ r = None"

fun created_ids :: "(fault \<times> request) list \<Rightarrow> store \<Rightarrow> int list" where
  \<comment> \<open>the ids returned by the creates among the requests served from a store\<close>
  "created_ids [] s = []"
| "created_ids ((f, q) # qs) s =
     (case serve f q s of
        (r, s') \<Rightarrow>
          (case created_id q r of None \<Rightarrow> [] | Some i \<Rightarrow> [i]) @ created_ids qs s')"

text \<open>
  From the claim's words, for comparison with \<open>Atoi\<close>: an integer string is an optional
  minus sign followed by one or more decimal digits, and its value is the integer it
  spells.
\<close>

definition spec_integer_string :: "string \<Rightarrow> bool" where
  "spec_integer_string s =
     (case s of
        [] \<Rightarrow> False
      | c # cs \<Rightarrow>
          if c = CHR ''-'' then cs \<noteq> [] \<and> list_all is_digit cs
          else list_all is_digit s)"

definition spec_digits_value :: "string \<Rightarrow> nat" where
  "spec_digits_value ds = foldl (\<lambda>n c. 10 * n + digit_val c) 0 ds"

definition spec_integer_value :: "string \<Rightarrow> int" where
  "spec_integer_value s =
     (case s of
        [] \<Rightarrow> 0
      | c # cs \<Rightarrow>
          if c = CHR ''-'' then - int (spec_digits_value cs)
          else int (spec_digits_value s))"


subsection \<open>Example data\<close>

text \<open>The bodies and stores of the scenario in the spec's testable properties.\<close>

definition widget_body :: request_body where
  "widget_body =
     Value (JObject [(''name'', JString ''Widget''),
                     (''description'', JString ''A widget''),
                     (''price'', JNumber (Frac_lit (999 / 100)))])"

definition name_only_body :: request_body where
  \<comment> \<open>\<^verbatim>\<open>{"name":"Widget"}\<close>: description and price are missing\<close>
  "name_only_body = Value (JObject [(''name'', JString ''Widget'')])"

definition empty_store :: store where
  "empty_store = \<lparr>rows = [], next_id = 1\<rparr>"

definition widget_store :: store where
  \<comment> \<open>the store after the first create of the scenario\<close>
  "widget_store =
     \<lparr>rows = [\<lparr>ID = 1, Name = ''Widget'', Description = ''A widget'', Price = 999 / 100\<rparr>],
      next_id = 2\<rparr>"

section \<open>Auxiliary facts\<close>

subsection \<open>The responses a handler writes\<close>

lemma http_Error_new:
  "http_Error m c new_response =
     \<lparr>header = [(''X-Content-Type-Options'', ''nosniff''),
                (''Content-Type'', ''text/plain; charset=utf-8'')],
      status = Some c, body = Line m\<rparr>"
  by (simp add: http_Error_def Write_def WriteHeader_def Header_Set_def Header_Del_def
      new_response_def)

lemma json_response:
  "Encode v (Header_Set ''Content-Type'' ''application/json'' new_response) =
     \<lparr>header = [(''Content-Type'', ''application/json'')], status = Some 200, body = Json v\<rparr>"
  by (simp add: Encode_def Write_def WriteHeader_def Header_Set_def new_response_def)

lemma no_content_response:
  "WriteHeader c new_response = \<lparr>header = [], status = Some c, body = No_body\<rparr>"
  by (simp add: WriteHeader_def new_response_def)

lemma no_content_json_response:
  "WriteHeader c (Header_Set ''Content-Type'' ''application/json'' new_response) =
     \<lparr>header = [(''Content-Type'', ''application/json'')], status = Some c, body = No_body\<rparr>"
  by (simp add: WriteHeader_def Header_Set_def new_response_def)

lemmas responses = http_Error_new json_response no_content_response no_content_json_response
  StatusBadRequest_def StatusNotFound_def StatusInternalServerError_def StatusNoContent_def

subsection \<open>Rows found by id\<close>

lemma find_absent: "i \<notin> set (map ID rs) \<Longrightarrow> find (\<lambda>r. ID r = i) rs = None"
  by (induction rs) auto

lemma find_present:
  "distinct (map ID rs) \<Longrightarrow> item \<in> set rs \<Longrightarrow> find (\<lambda>r. ID r = ID item) rs = Some item"
  by (induction rs) (auto simp: rev_image_eqI)

lemma find_after_delete: "find (\<lambda>r. ID r = i) (filter (\<lambda>r. ID r \<noteq> i) rs) = None"
  by (induction rs) auto

lemma find_appended:
  "i \<notin> set (map ID rs) \<Longrightarrow> ID new = i \<Longrightarrow> find (\<lambda>r. ID r = i) (rs @ [new]) = Some new"
  by (induction rs) auto

lemma filter_keeps_distinct_ids: "distinct (map ID rs) \<Longrightarrow> distinct (map ID (filter P rs))"
  by (induction rs) auto

lemma scan_rows_appends: "scan_rows rs (Some acc) = Inr (Some (acc @ rs))"
  by (induction rs arbitrary: acc) (simp_all add: Scan_def append_slice_def)

lemma ID_update:
  "ID \<circ> (\<lambda>r. if ID r = i then r\<lparr>Name := n, Description := d, Price := p\<rparr> else r) = ID"
  by (auto simp: fun_eq_iff)

subsection \<open>The sequence stays ahead of the table\<close>

lemma insert_store_ok:
  assumes "store_ok s" and "insert_returning_id f n d p s = (res, s')"
  shows "store_ok s' \<and> next_id s \<le> next_id s'
     \<and> (\<forall>i. res = Inr i \<longrightarrow> i = next_id s \<and> next_id s' = i + 1)"
proof (cases f)
  case (Some m)
  with assms show ?thesis by (auto simp: insert_returning_id_def)
next
  case None
  have below: "\<forall>i\<in>set (ids s). i < next_id s + 1"
    using assms(1) by (auto simp: store_ok_def list_all_iff)
  show ?thesis
  proof (cases "next_id s \<in> set (ids s)")
    case True
    with None assms below show ?thesis
      by (auto simp: insert_returning_id_def store_ok_def ids_def list_all_iff Let_def)
  next
    case False
    with None assms below show ?thesis
      by (auto simp: insert_returning_id_def store_ok_def ids_def list_all_iff Let_def)
  qed
qed

lemma update_store_ok:
  "store_ok s \<Longrightarrow> update_by_id f n d p i s = (res, s') \<Longrightarrow>
     store_ok s' \<and> next_id s' = next_id s"
  by (auto simp: update_by_id_def store_ok_def ids_def ID_update split: option.splits)

lemma delete_store_ok:
  "store_ok s \<Longrightarrow> delete_by_id f i s = (res, s') \<Longrightarrow>
     store_ok s' \<and> next_id s' = next_id s"
  by (auto simp: delete_by_id_def store_ok_def ids_def list_all_iff distinct_map_filter
      split: option.splits)

lemma serve_store_ok:
  assumes "store_ok s" and "serve f q s = (r, s')"
  shows "store_ok s' \<and> next_id s \<le> next_id s'"
proof (cases q)
  case (POST_items b)
  with assms show ?thesis
    by (auto simp: createItem_def split: sum.splits prod.splits dest: insert_store_ok)
next
  case GET_items
  with assms show ?thesis
    by (auto simp: getItems_def split: sum.splits)
next
  case (GET_item seg)
  with assms show ?thesis
    by (auto simp: getItem_def split: sum.splits option.splits if_splits)
next
  case (PUT_item seg b)
  with assms show ?thesis
    by (auto simp: updateItem_def split: sum.splits option.splits prod.splits
        dest: update_store_ok)
next
  case (DELETE_item seg)
  with assms show ?thesis
    by (auto simp: deleteItem_def split: sum.splits option.splits prod.splits
        dest: delete_store_ok)
qed

lemma created_id_bounds:
  assumes "store_ok s" and "serve f q s = (r, s')" and "created_id q r = Some i"
  shows "next_id s \<le> i \<and> i < next_id s'"
proof (cases q)
  case (POST_items b)
  with assms show ?thesis
    by (auto simp: createItem_def responses Item_json_def
        split: sum.splits prod.splits if_splits dest: insert_store_ok)
qed (use assms in auto)

lemma created_ids_bounds:
  "store_ok s \<Longrightarrow> serve_all tr s = (rs, s') \<Longrightarrow>
     store_ok s' \<and> next_id s \<le> next_id s'
     \<and> (\<forall>i\<in>set (created_ids tr s). next_id s \<le> i \<and> i < next_id s')"
proof (induction tr arbitrary: s rs)
  case Nil
  then show ?case by simp
next
  case (Cons fq tr)
  obtain f q where fq: "fq = (f, q)" by (cases fq)
  obtain r s1 where step: "serve f q s = (r, s1)" by (cases "serve f q s")
  obtain rs1 where rest: "serve_all tr s1 = (rs1, s')"
    using Cons.prems(2) fq step by (cases "serve_all tr s1") simp
  have ok1: "store_ok s1" and le1: "next_id s \<le> next_id s1"
    using serve_store_ok [OF Cons.prems(1) step] by simp_all
  have ih: "store_ok s' \<and> next_id s1 \<le> next_id s'
     \<and> (\<forall>i\<in>set (created_ids tr s1). next_id s1 \<le> i \<and> i < next_id s')"
    using Cons.IH [OF ok1 rest] .
  have head: "\<And>i. created_id q r = Some i \<Longrightarrow> next_id s \<le> i \<and> i < next_id s1"
    using created_id_bounds [OF Cons.prems(1) step] .
  show ?case
  proof (cases "created_id q r")
    case None
    with ih le1 show ?thesis by (auto simp: fq step)
  next
    case (Some i)
    with ih le1 head [OF Some] show ?thesis by (auto simp: fq step)
  qed
qed

subsection \<open>The example data evaluated\<close>

lemma float64_range_small: "\<bar>q\<bar> < 2 ^ 64 \<Longrightarrow> float64_range q"
proof -
  assume a: "\<bar>q\<bar> < 2 ^ 64"
  have "(2::rat) ^ 64 \<le> 2 ^ 970" by (rule power_increasing) simp_all
  moreover have "(2::rat) ^ 970 + 2 ^ 970 = 2 ^ 971" by simp
  moreover have "(2::rat) ^ 971 \<le> 2 ^ 1024" by (rule power_increasing) simp_all
  ultimately have "(2::rat) ^ 64 \<le> 2 ^ 1024 - 2 ^ 970" by linarith
  with a show ?thesis unfolding float64_range_def by linarith
qed

lemma widget_decodes:
  "Decode widget_body zero_Item =
     Inr \<lparr>ID = 0, Name = ''Widget'', Description = ''A widget'', Price = 999 / 100\<rparr>"
  by (simp add: widget_body_def Decode_def Unmarshal_def set_field_def to_lower_def
      zero_Item_def float64_range_small)

lemma Atoi_1: "Atoi ''1'' = Some 1"
  by (simp add: Atoi_def is_digit_def digit_val_def)

lemma Atoi_2: "Atoi ''2'' = Some 2"
  by (simp add: Atoi_def is_digit_def digit_val_def)

lemma Atoi_7: "Atoi ''7'' = Some 7"
  by (simp add: Atoi_def is_digit_def digit_val_def)


subsection \<open>Decoding an object with some of the fields\<close>








subsection \<open>Atoi on integer strings\<close>

lemma parse_digits_spec:
  "list_all is_digit ds \<Longrightarrow>
     parse_digits ds n = Some (foldl (\<lambda>n c. 10 * n + digit_val c) n ds)"
  by (induction ds arbitrary: n) (simp_all add: mult.commute)

lemma plus_is_no_digit: "\<not> is_digit CHR ''+''"
  by (simp add: is_digit_def)

lemma Atoi_integer_string:
  assumes "spec_integer_string seg" and "int64_range (spec_integer_value seg)"
  shows "Atoi seg = Some (spec_integer_value seg)"
proof (cases seg)
  case Nil
  with assms(1) show ?thesis by (simp add: spec_integer_string_def)
next
  case (Cons c cs)
  show ?thesis
  proof (cases "c = CHR ''-''")
    case True
    with Cons assms(1) have ds: "cs \<noteq> []" "list_all is_digit cs"
      by (simp_all add: spec_integer_string_def)
    have v: "spec_integer_value seg = - int (spec_digits_value cs)"
      using Cons True by (simp add: spec_integer_value_def)
    have "spec_digits_value cs \<le> 2 ^ 63"
      using assms(2) unfolding v int64_range_def by simp
    then show ?thesis
      using Cons True ds v
      by (simp add: Atoi_def parse_digits_spec spec_digits_value_def)
  next
    case False
    with Cons assms(1) have ds: "list_all is_digit (c # cs)"
      by (simp add: spec_integer_string_def)
    then have plus: "c \<noteq> CHR ''+''" using plus_is_no_digit by auto
    have v: "spec_integer_value seg = int (spec_digits_value (c # cs))"
      using Cons False by (simp add: spec_integer_value_def)
    have "spec_digits_value (c # cs) < 2 ^ 63"
      using assms(2) unfolding v int64_range_def by simp
    then show ?thesis
      using Cons False plus ds v parse_digits_spec [OF ds, of 0]
      by (simp add: Atoi_def spec_digits_value_def del: parse_digits.simps)
  qed
qed

section \<open>The claims\<close>

text \<open>
  Claim C1. A create with a body that decodes, on a store that answers, returns 200
  with the Item decoded from the body under the id the sequence hands out. That id is
  positive and is none of the ids returned by the creates of any requests served before,
  from a store whose sequence is ahead of its table. A get with a path segment that
  parses to this id then returns 200 with the same Item in its body.
\<close>

theorem create_then_get:
  assumes "store_ok s0" and "serve_all tr s0 = (rs, s)"
    and "Decode b zero_Item = Inr item" and "createItem None b s = (r, s')"
  shows "status r = Some 200
       \<and> body r = Json (Item_json (item\<lparr>ID := next_id s\<rparr>))
       \<and> created_id (POST_items b) r = Some (next_id s)
       \<and> 0 < next_id s
       \<and> next_id s \<notin> set (created_ids tr s0)
       \<and> (\<forall>seg. Atoi seg = Some (next_id s) \<longrightarrow>
            status (fst (getItem None seg s')) = Some 200
          \<and> body (fst (getItem None seg s')) = body r)"
proof -
  have ok: "store_ok s" and earlier: "\<forall>i\<in>set (created_ids tr s0). i < next_id s"
    using created_ids_bounds [OF assms(1,2)] by simp_all
  have fresh: "next_id s \<notin> set (ids s)"
    using ok by (auto simp: store_ok_def list_all_iff)
  have pos: "0 < next_id s" using ok by (simp add: store_ok_def)
  have r: "r = \<lparr>header = [(''Content-Type'', ''application/json'')], status = Some 200,
      body = Json (Item_json (item\<lparr>ID := next_id s\<rparr>))\<rparr>"
    and s': "rows s' = rows s @ [\<lparr>ID = next_id s, Name = Name item,
      Description = Description item, Price = Price item\<rparr>]"
    using assms(3,4) fresh
    by (auto simp: createItem_def insert_returning_id_def responses Let_def)
  have same: "\<lparr>ID = next_id s, Name = Name item, Description = Description item,
      Price = Price item\<rparr> = item\<lparr>ID := next_id s\<rparr>"
    by simp
  have get: "find (\<lambda>r. ID r = next_id s) (rows s') = Some (item\<lparr>ID := next_id s\<rparr>)"
    unfolding s' same
    using fresh by (intro find_appended) (simp_all add: ids_def)
  have "next_id s \<notin> set (created_ids tr s0)" using earlier by auto
  moreover have "created_id (POST_items b) r = Some (next_id s)"
    by (simp add: r Item_json_def)
  moreover have "\<forall>seg. Atoi seg = Some (next_id s) \<longrightarrow>
            status (fst (getItem None seg s')) = Some 200
          \<and> body (fst (getItem None seg s')) = body r"
    using get by (simp add: getItem_def select_by_id_def responses r)
  ultimately show ?thesis using pos r by simp
qed

theorem create_then_get_witness:
  "store_ok empty_store
   \<and> snd (serve_all [(None, POST_items widget_body)] empty_store) = widget_store
   \<and> status (fst (createItem None widget_body widget_store)) = Some 200
   \<and> created_id (POST_items widget_body) (fst (createItem None widget_body widget_store)) = Some 2
   \<and> 2 \<notin> set (created_ids [(None, POST_items widget_body)] empty_store)
   \<and> Atoi ''2'' = Some 2
   \<and> status (fst (getItem None ''2'' (snd (createItem None widget_body widget_store)))) = Some 200"
proof -
  have ok: "store_ok empty_store" by (simp add: store_ok_def empty_store_def ids_def)
  obtain r1 where first: "createItem None widget_body empty_store = (r1, widget_store)"
    by (simp add: createItem_def widget_decodes insert_returning_id_def empty_store_def
        widget_store_def ids_def Let_def)
  have run: "serve_all [(None, POST_items widget_body)] empty_store = ([r1], widget_store)"
    by (simp add: first)
  obtain r2 s2 where second: "createItem None widget_body widget_store = (r2, s2)"
    by (cases "createItem None widget_body widget_store")
  have n: "next_id widget_store = 2" by (simp add: widget_store_def)
  note t = create_then_get [OF ok run widget_decodes second, unfolded n]
  from t have "status r2 = Some 200"
    and "created_id (POST_items widget_body) r2 = Some 2"
    and "2 \<notin> set (created_ids [(None, POST_items widget_body)] empty_store)"
    and "status (fst (getItem None ''2'' s2)) = Some 200"
    using Atoi_2 by blast+
  then show ?thesis
    using ok Atoi_2
    by (simp add: run second del: created_ids.simps created_id.simps serve_all.simps)
qed




text \<open>
  Claim C3. On a store that answers, the list operation returns 200 with the JSON array
  of the rows of the table, one Item each; on an empty table the array is empty, and
  the body is never \<^verbatim>\<open>null\<close> and never absent. The store is left as it was.
\<close>

theorem getItems_is_array:
  "status (fst (getItems None s)) = Some 200
 \<and> body (fst (getItems None s)) = Json (JArray (map Item_json (rows s)))
 \<and> (rows s = [] \<longrightarrow> body (fst (getItems None s)) = Json (JArray []))
 \<and> body (fst (getItems None s)) \<noteq> Json JNull
 \<and> body (fst (getItems None s)) \<noteq> No_body
 \<and> snd (getItems None s) = s"
  by (simp add: getItems_def select_all_def scan_rows_appends slice_json_def responses)

theorem getItems_is_array_witness:
  "rows empty_store = []
   \<and> status (fst (getItems None empty_store)) = Some 200
   \<and> body (fst (getItems None empty_store)) = Json (JArray [])"
  using getItems_is_array [of empty_store] by (simp add: empty_store_def)

text \<open>
  Claim C4. For a path segment that parses to an integer id, on a store that answers:
  when no row has this id, get returns 404 with the message "Item not found"; when a row
  has it (ids being unique), get returns 200 with that Item as JSON. The store is left
  as it was.
\<close>

theorem getItem_404_or_item:
  assumes "Atoi seg = Some i"
  shows "(i \<notin> set (ids s) \<longrightarrow>
            status (fst (getItem None seg s)) = Some 404
          \<and> body (fst (getItem None seg s)) = Line (Msg ''Item not found''))
       \<and> (distinct (ids s) \<and> item \<in> set (rows s) \<and> ID item = i \<longrightarrow>
            status (fst (getItem None seg s)) = Some 200
          \<and> body (fst (getItem None seg s)) = Json (Item_json item))
       \<and> snd (getItem None seg s) = s"
  using assms
  by (auto simp: getItem_def select_by_id_def ids_def responses find_absent find_present
      split: option.splits)

theorem getItem_404_or_item_witness:
  "Atoi ''2'' = Some 2 \<and> 2 \<notin> set (ids widget_store)
   \<and> status (fst (getItem None ''2'' widget_store)) = Some 404
   \<and> Atoi ''1'' = Some 1 \<and> distinct (ids widget_store)
   \<and> status (fst (getItem None ''1'' widget_store)) = Some 200
   \<and> body (fst (getItem None ''1'' widget_store)) =
       Json (Item_json \<lparr>ID = 1, Name = ''Widget'', Description = ''A widget'', Price = 999 / 100\<rparr>)"
  using getItem_404_or_item [OF Atoi_2, of widget_store]
    getItem_404_or_item [OF Atoi_1, of widget_store
      "\<lparr>ID = 1, Name = ''Widget'', Description = ''A widget'', Price = 999 / 100\<rparr>"]
    Atoi_1 Atoi_2
  by (simp add: widget_store_def ids_def)

text \<open>
  Claim C5. For a path segment that parses to an id no row has, and a body that
  decodes, update on a store that answers returns 204 with no body and leaves the store
  exactly as it was: no row is created and none is changed.
\<close>

theorem update_absent_id_is_noop:
  assumes "Atoi seg = Some i" and "i \<notin> set (ids s)" and "Decode b zero_Item = Inr item"
  shows "status (fst (updateItem None seg b s)) = Some 204
       \<and> body (fst (updateItem None seg b s)) = No_body
       \<and> snd (updateItem None seg b s) = s"
proof -
  have "map (\<lambda>r. if ID r = i then r\<lparr>Name := Name item, Description := Description item,
            Price := Price item\<rparr> else r) (rows s) = rows s"
    using assms(2) by (intro map_idI) (auto simp: ids_def)
  then show ?thesis
    using assms(1,3) by (simp add: updateItem_def update_by_id_def responses)
qed

theorem update_absent_id_is_noop_witness:
  "Atoi ''7'' = Some 7 \<and> 7 \<notin> set (ids widget_store)
   \<and> Decode widget_body zero_Item =
       Inr \<lparr>ID = 0, Name = ''Widget'', Description = ''A widget'', Price = 999 / 100\<rparr>
   \<and> status (fst (updateItem None ''7'' widget_body widget_store)) = Some 204
   \<and> snd (updateItem None ''7'' widget_body widget_store) = widget_store"
proof -
  have absent: "7 \<notin> set (ids widget_store)" by (simp add: widget_store_def ids_def)
  show ?thesis
    using update_absent_id_is_noop [OF Atoi_7 absent widget_decodes] Atoi_7 absent widget_decodes
    by simp
qed

text \<open>
  Claim C6. For a path segment that parses to an integer id, a delete on a store that
  answers returns 204 with no body. Whenever a delete has returned 204, a get with the
  same path segment (the store answering) returns 404 with the message "Item not
  found": no row with that id is left.
\<close>

theorem delete_then_get_is_404:
  "(Atoi seg = Some i \<longrightarrow>
      status (fst (deleteItem None seg s)) = Some 204
    \<and> body (fst (deleteItem None seg s)) = No_body)
 \<and> (status (fst (deleteItem f seg s)) = Some 204 \<longrightarrow>
      status (fst (getItem None seg (snd (deleteItem f seg s)))) = Some 404
    \<and> body (fst (getItem None seg (snd (deleteItem f seg s)))) = Line (Msg ''Item not found'')
    \<and> (\<forall>k. Atoi seg = Some k \<longrightarrow> k \<notin> set (ids (snd (deleteItem f seg s)))))"
  by (auto simp: deleteItem_def delete_by_id_def getItem_def select_by_id_def ids_def responses
      find_after_delete split: option.splits)

theorem delete_then_get_is_404_witness:
  "Atoi ''1'' = Some 1
   \<and> status (fst (deleteItem None ''1'' widget_store)) = Some 204
   \<and> status (fst (getItem None ''1'' (snd (deleteItem None ''1'' widget_store)))) = Some 404
   \<and> body (fst (getItem None ''1'' (snd (deleteItem None ''1'' widget_store))))
       = Line (Msg ''Item not found'')"
  using delete_then_get_is_404 [of "''1''" 1 widget_store None] Atoi_1 by blast

text \<open>
  Claim C7. Every request keeps the ids of the table unique, whatever the store does
  with the statement. A create leaves the rows as they are or adds one row whose id is
  the value of the sequence and is not an id of the table; the reads change nothing;
  an update keeps the id of every row (and the sequence) and leaves every row but those
  with the path id as it was; a delete only removes the rows with the path id.
\<close>

theorem ids_unique_and_fixed:
  assumes "distinct (ids s)" and "serve f q s = (r, s')"
  shows "distinct (ids s')
       \<and> (\<forall>b. q = POST_items b \<longrightarrow>
             rows s' = rows s
           \<or> (\<exists>item. rows s' = rows s @ [item] \<and> ID item = next_id s \<and> ID item \<notin> set (ids s)))
       \<and> (q = GET_items \<longrightarrow> s' = s)
       \<and> (\<forall>seg. q = GET_item seg \<longrightarrow> s' = s)
       \<and> (\<forall>seg b. q = PUT_item seg b \<longrightarrow>
             ids s' = ids s \<and> next_id s' = next_id s
           \<and> (\<forall>k < length (rows s).
                 Atoi seg \<noteq> Some (ID (rows s ! k)) \<longrightarrow> rows s' ! k = rows s ! k))
       \<and> (\<forall>seg. q = DELETE_item seg \<longrightarrow>
             rows s' = rows s
           \<or> (\<exists>i. Atoi seg = Some i \<and> rows s' = filter (\<lambda>r. ID r \<noteq> i) (rows s)))"
proof (cases q)
  case (POST_items b)
  with assms show ?thesis
    by (auto simp: createItem_def insert_returning_id_def ids_def Let_def
        split: sum.splits option.splits if_splits)
next
  case GET_items
  with assms show ?thesis
    by (auto simp: getItems_def split: sum.splits)
next
  case (GET_item seg)
  with assms show ?thesis
    by (auto simp: getItem_def split: sum.splits option.splits if_splits)
next
  case (PUT_item seg b)
  with assms show ?thesis
    by (auto simp: updateItem_def update_by_id_def ids_def ID_update
        split: sum.splits option.splits)
next
  case (DELETE_item seg)
  with assms show ?thesis
    by (auto simp: deleteItem_def delete_by_id_def ids_def filter_keeps_distinct_ids
        split: option.splits)
qed

theorem ids_unique_and_fixed_witness:
  "distinct (ids widget_store)
   \<and> distinct (ids (snd (serve None (PUT_item ''1'' name_only_body) widget_store)))
   \<and> ids (snd (serve None (PUT_item ''1'' name_only_body) widget_store)) = ids widget_store"
proof -
  have d: "distinct (ids widget_store)" by (simp add: widget_store_def ids_def)
  obtain r s' where run: "serve None (PUT_item ''1'' name_only_body) widget_store = (r, s')"
    by (cases "serve None (PUT_item ''1'' name_only_body) widget_store")
  show ?thesis
    using ids_unique_and_fixed [OF d run] d by (simp add: run del: serve.simps)
qed

text \<open>
  Claim C8. When the id path segment does not parse as an integer, get, update and
  delete answer 400 with the message "Invalid item ID" and the store is unchanged. The
  answer is the same whatever the store would do with a statement and whatever the
  body is: the handler returns before it reaches the store.
\<close>

theorem invalid_id_is_400:
  assumes "Atoi seg = None"
  shows "getItem f seg s = (http_Error (Msg ''Invalid item ID'') 400 new_response, s)
       \<and> updateItem f seg b s = (http_Error (Msg ''Invalid item ID'') 400 new_response, s)
       \<and> deleteItem f seg s = (http_Error (Msg ''Invalid item ID'') 400 new_response, s)
       \<and> status (http_Error (Msg ''Invalid item ID'') 400 new_response) = Some 400
       \<and> body (http_Error (Msg ''Invalid item ID'') 400 new_response) = Line (Msg ''Invalid item ID'')"
  using assms by (simp add: getItem_def updateItem_def deleteItem_def responses)

theorem invalid_id_is_400_witness:
  "Atoi ''abc'' = None
   \<and> getItem None ''abc'' \<lparr>rows = [], next_id = 1\<rparr>
       = (http_Error (Msg ''Invalid item ID'') 400 new_response, \<lparr>rows = [], next_id = 1\<rparr>)
   \<and> status (fst (updateItem (Some ''down'') ''1x'' (Syntax_error ''EOF'') \<lparr>rows = [], next_id = 1\<rparr>)) = Some 400"
proof -
  have a: "Atoi ''abc'' = None" by (simp add: Atoi_def is_digit_def)
  have b: "Atoi ''1x'' = None" by (simp add: Atoi_def is_digit_def digit_val_def)
  show ?thesis
    using a invalid_id_is_400 [OF a, of None "\<lparr>rows = [], next_id = 1\<rparr>"]
      invalid_id_is_400 [OF b, of "Some ''down''" "\<lparr>rows = [], next_id = 1\<rparr>" "Syntax_error ''EOF''"]
    by simp
qed

text \<open>
  Claim C9, evaluated on the code: the 204 answer of an update has no body and yet
  carries the header Content-Type: application/json (main.go 203), while the 204 answer
  of a delete carries no Content-Type.
\<close>

theorem update_204_has_content_type:
  "status (fst (updateItem None ''1'' widget_body widget_store)) = Some 204
   \<and> body (fst (updateItem None ''1'' widget_body widget_store)) = No_body
   \<and> Header_Get ''Content-Type'' (fst (updateItem None ''1'' widget_body widget_store))
       = Some ''application/json''
   \<and> status (fst (deleteItem None ''1'' widget_store)) = Some 204
   \<and> Header_Get ''Content-Type'' (fst (deleteItem None ''1'' widget_store)) = None"
  by (simp add: updateItem_def deleteItem_def Atoi_1 widget_decodes update_by_id_def
      delete_by_id_def responses Header_Get_def)

text \<open>
  Claim C10, as stated, fails: an integer string whose value does not fit Go's 64-bit
  int is answered with 400 "Invalid item ID", and an update without a decodable
  body is answered with 400 also when the id parses and matches no row.
\<close>

theorem integer_string_counterexample:
  "spec_integer_string ''9223372036854775808''
   \<and> status (fst (getItem None ''9223372036854775808'' empty_store)) = Some 400
   \<and> body (fst (getItem None ''9223372036854775808'' empty_store)) = Line (Msg ''Invalid item ID'')
   \<and> spec_integer_string ''-5''
   \<and> -5 \<notin> set (ids empty_store)
   \<and> status (fst (updateItem None ''-5'' (Syntax_error ''unexpected EOF'') empty_store)) = Some 400"
proof -
  have big: "Atoi ''9223372036854775808'' = None"
    by (simp add: Atoi_def is_digit_def digit_val_def)
  have m5: "Atoi ''-5'' = Some (- 5)"
    by (simp add: Atoi_def is_digit_def digit_val_def)
  show ?thesis
    by (simp add: spec_integer_string_def is_digit_def getItem_def updateItem_def big m5
        Decode_def responses empty_store_def ids_def)
qed

text \<open>
  Claim C10, amended. Every integer string (an optional minus sign and digits) whose
  value lies in the range of a 64-bit int, zero and negative values included, parses
  to that value: no handler answers it with the invalid-id error. When no row has this
  id and the store answers, get returns 404, delete returns 204, and update returns
  204 for every body that decodes.
\<close>

theorem integer_string_in_range_accepted:
  assumes "spec_integer_string seg" and "int64_range (spec_integer_value seg)"
  shows "Atoi seg = Some (spec_integer_value seg)
       \<and> body (fst (getItem f seg s)) \<noteq> Line (Msg ''Invalid item ID'')
       \<and> body (fst (updateItem f seg b s)) \<noteq> Line (Msg ''Invalid item ID'')
       \<and> body (fst (deleteItem f seg s)) \<noteq> Line (Msg ''Invalid item ID'')
       \<and> (spec_integer_value seg \<notin> set (ids s) \<longrightarrow>
             status (fst (getItem None seg s)) = Some 404
           \<and> (\<forall>item. Decode b zero_Item = Inr item \<longrightarrow>
                 status (fst (updateItem None seg b s)) = Some 204)
           \<and> status (fst (deleteItem None seg s)) = Some 204)"
proof -
  note a = Atoi_integer_string [OF assms]
  have "body (fst (getItem f seg s)) \<noteq> Line (Msg ''Invalid item ID'')"
    by (auto simp: getItem_def a select_by_id_def responses split: option.splits)
  moreover have "body (fst (updateItem f seg b s)) \<noteq> Line (Msg ''Invalid item ID'')"
    by (auto simp: updateItem_def a update_by_id_def responses split: option.splits sum.splits)
  moreover have "body (fst (deleteItem f seg s)) \<noteq> Line (Msg ''Invalid item ID'')"
    by (auto simp: deleteItem_def a delete_by_id_def responses split: option.splits)
  moreover have "status (fst (getItem None seg s)) = Some 404"
    if "spec_integer_value seg \<notin> set (ids s)"
    using that by (simp add: getItem_def a select_by_id_def ids_def find_absent responses)
  moreover have "status (fst (updateItem None seg b s)) = Some 204"
    if "Decode b zero_Item = Inr item" for item
    using that by (simp add: updateItem_def a update_by_id_def responses)
  moreover have "status (fst (deleteItem None seg s)) = Some 204"
    by (simp add: deleteItem_def a delete_by_id_def responses)
  ultimately show ?thesis using a by blast
qed

theorem integer_string_in_range_accepted_witness:
  "spec_integer_string ''-5'' \<and> int64_range (spec_integer_value ''-5'')
   \<and> Atoi ''-5'' = Some (- 5)
   \<and> status (fst (getItem None ''-5'' widget_store)) = Some 404
   \<and> status (fst (updateItem None ''-5'' widget_body widget_store)) = Some 204
   \<and> status (fst (deleteItem None ''-5'' widget_store)) = Some 204
   \<and> spec_integer_string ''0'' \<and> Atoi ''0'' = Some 0"
proof -
  have s5: "spec_integer_string ''-5''" by (simp add: spec_integer_string_def is_digit_def)
  have v5: "spec_integer_value ''-5'' = - 5"
    by (simp add: spec_integer_value_def spec_digits_value_def digit_val_def)
  have r5: "int64_range (spec_integer_value ''-5'')" by (simp add: v5 int64_range_def)
  have s0: "spec_integer_string ''0''" by (simp add: spec_integer_string_def is_digit_def)
  have v0: "spec_integer_value ''0'' = 0"
    by (simp add: spec_integer_value_def spec_digits_value_def digit_val_def)
  have r0: "int64_range (spec_integer_value ''0'')" by (simp add: v0 int64_range_def)
  have absent: "- 5 \<notin> set (ids widget_store)" by (simp add: widget_store_def ids_def)
  show ?thesis
    using integer_string_in_range_accepted [OF s5 r5, of None widget_store widget_body]
      integer_string_in_range_accepted [OF s0 r0, of None widget_store widget_body]
      s5 r5 s0 absent widget_decodes
    by (simp add: v5 v0)
qed

end
